theory Spec2Isabelle
  imports Complex_Main
begin

section \<open>JavaScript values consumed by the auth context\<close>

text \<open>
  The metadata of a provider user is typed \<^verbatim>\<open>any\<close>, and so is the error of a sign-in
  response. Such values are modelled by a datatype of JavaScript values. A number is a
  finite rational (every finite double is one), NaN or an infinity; only its truthiness
  is ever consumed.
\<close>

datatype jsnum = Finite rat | NaN | Infinity bool

datatype jsval =
    JUndefined
  | JNull
  | JBool bool
  | JNum jsnum
  | JStr string
  | JArr "jsval list"
  | JObj "(string \<times> jsval) list"

text \<open>JavaScript's ToBoolean: the falsy values are undefined, null, false, 0, NaN and "".\<close>

fun truthy :: "jsval \<Rightarrow> bool" where
  "truthy JUndefined = False"
| "truthy JNull = False"
| "truthy (JBool b) = b"
| "truthy (JNum (Finite q)) = (q \<noteq> 0)"
| "truthy (JNum NaN) = False"
| "truthy (JNum (Infinity _)) = True"
| "truthy (JStr s) = (s \<noteq> [])"
| "truthy (JArr _) = True"
| "truthy (JObj _) = True"

text \<open>The operator \<^verbatim>\<open>a || b\<close>: the left operand when it is truthy, else the right one.\<close>

definition js_or :: "jsval \<Rightarrow> jsval \<Rightarrow> jsval" where
  "js_or a b = (if truthy a then a else b)"

text \<open>
  \<^verbatim>\<open>s.split(c)\<close> for a separator of one character: the pieces between the
  occurrences of the separator; the empty string gives one empty piece.
\<close>

fun split_char :: "char \<Rightarrow> string \<Rightarrow> string list" where
  "split_char c [] = [[]]"
| "split_char c (x # xs) =
     (if x = c then [] # split_char c xs
      else (case split_char c xs of
              [] \<Rightarrow> [[x]]
            | w # ws \<Rightarrow> (x # w) # ws))"

text \<open>\<^verbatim>\<open>xs[i]\<close> on an array of strings: undefined out of range.\<close>

definition js_index :: "string list \<Rightarrow> nat \<Rightarrow> jsval" where
  "js_index xs i = (if i < length xs then JStr (xs ! i) else JUndefined)"

section \<open>Data model\<close>

text \<open>
  The provider's user: \<^verbatim>\<open>id\<close>, the optional \<^verbatim>\<open>email\<close> and the free-form
  \<^verbatim>\<open>user_metadata\<close>, which the code reads through \<^verbatim>\<open>?.\<close> and which may
  therefore be missing. The field \<^verbatim>\<open>id\<close> is written \<open>id'\<close>.
\<close>

record supabase_user =
  id' :: string
  email :: "string option"
  user_metadata :: "(string \<rightharpoonup> jsval) option"

record session =
  user :: supabase_user

datatype role = Admin | Member

text \<open>
  The application user. The three fields filled from metadata hold whatever value the
  metadata had, so they are JavaScript values.
\<close>

record app_user =
  id' :: string
  email :: string
  password :: string
  fullName :: jsval
  companyName :: jsval
  role :: role
  permissions :: jsval

text \<open>The three \<^verbatim>\<open>useState\<close> cells of \<^verbatim>\<open>AuthProvider\<close>.\<close>

record auth_state =
  user :: "app_user option"
  supabaseUser :: "supabase_user option"
  isLoading :: bool

text \<open>Lines 37 to 39: the initial values of the cells.\<close>

definition initial_state :: auth_state where
  "initial_state = \<lparr>user = None, supabaseUser = None, isLoading = True\<rparr>"

text \<open>Line 103: \<^verbatim>\<open>isAuthenticated: !!user\<close>.\<close>

definition isAuthenticated :: "auth_state \<Rightarrow> bool" where
  "isAuthenticated s = (auth_state.user s \<noteq> None)"

text \<open>\<^verbatim>\<open>u.user_metadata?.k\<close>: undefined when the metadata or the key is missing.\<close>

definition metadata_get :: "supabase_user \<Rightarrow> string \<Rightarrow> jsval" where
  "metadata_get u k =
     (case user_metadata u of
        None \<Rightarrow> JUndefined
      | Some m \<Rightarrow> (case m k of None \<Rightarrow> JUndefined | Some v \<Rightarrow> v))"

text \<open>\<^verbatim>\<open>u.email?.split('@')[0]\<close>.\<close>

definition email_local_part :: "supabase_user \<Rightarrow> jsval" where
  "email_local_part u =
     (case supabase_user.email u of
        None \<Rightarrow> JUndefined
      | Some e \<Rightarrow> js_index (split_char CHR ''@'' e) 0)"

text \<open>\<^verbatim>\<open>u.email || ''\<close>.\<close>

definition email_or_empty :: "supabase_user \<Rightarrow> string" where
  "email_or_empty u =
     (case supabase_user.email u of
        None \<Rightarrow> []
      | Some e \<Rightarrow> (if e \<noteq> [] then e else []))"

section \<open>The two session handlers\<close>

text \<open>Lines 47 to 55: the application user built in the callback of the startup fetch.\<close>

definition startup_appUser :: "supabase_user \<Rightarrow> app_user" where
  "startup_appUser u =
     \<lparr>id' = supabase_user.id' u,
      email = email_or_empty u,
      password = [],
      fullName = js_or (js_or (metadata_get u ''full_name'') (email_local_part u)) (JStr []),
      companyName = js_or (metadata_get u ''company_name'') (JStr []),
      role = (if metadata_get u ''role'' = JStr ''Admin'' then Admin else Member),
      permissions = js_or (metadata_get u ''permissions'') (JArr [])\<rparr>"

text \<open>
  Lines 43 to 59: the callback of \<^verbatim>\<open>auth.getCurrentUser().then\<close>. It stores the
  provider's user (or null), stores the application user only when there is a user, and
  ends the loading phase.
\<close>

definition getCurrentUser_then :: "auth_state \<Rightarrow> supabase_user option \<Rightarrow> auth_state" where
  "getCurrentUser_then s r =
     (let s1 = s\<lparr>supabaseUser := r\<rparr>;
          s2 = (case r of
                  Some u \<Rightarrow> s1\<lparr>user := Some (startup_appUser u)\<rparr>
                | None \<Rightarrow> s1)
      in s2\<lparr>isLoading := False\<rparr>)"

text \<open>Lines 65 to 73: the application user built in the change listener.\<close>

definition change_appUser :: "supabase_user \<Rightarrow> app_user" where
  "change_appUser u =
     \<lparr>id' = supabase_user.id' u,
      email = email_or_empty u,
      password = [],
      fullName = js_or (js_or (metadata_get u ''full_name'') (email_local_part u)) (JStr []),
      companyName = js_or (metadata_get u ''company_name'') (JStr []),
      role = (if metadata_get u ''role'' = JStr ''Admin'' then Admin else Member),
      permissions = js_or (metadata_get u ''permissions'') (JArr [])\<rparr>"

text \<open>
  Lines 62 to 80: the listener given to \<^verbatim>\<open>auth.onAuthStateChange\<close>. The event kind
  is not looked at. With a session both users are stored; without one both are cleared.
\<close>

definition onAuthStateChange_cb :: "auth_state \<Rightarrow> string \<Rightarrow> session option \<Rightarrow> auth_state" where
  "onAuthStateChange_cb s event sess =
     (let s1 = (case sess of
                  Some se \<Rightarrow>
                    s\<lparr>supabaseUser := Some (session.user se),
                      user := Some (change_appUser (session.user se))\<rparr>
                | None \<Rightarrow> s\<lparr>user := None, supabaseUser := None\<rparr>)
      in s1\<lparr>isLoading := False\<rparr>)"

section \<open>The two delegate actions\<close>

text \<open>How an awaited promise settles: with a value, or rejected with a thrown value.\<close>

datatype 'a settled = Fulfilled 'a | Rejected jsval

text \<open>
  What \<^verbatim>\<open>signIn\<close> returns: an object with the one field \<^verbatim>\<open>error\<close>. The provider's
  response is any object that has this field.
\<close>

record signIn_result =
  error :: jsval

text \<open>Line 86: what \<^verbatim>\<open>signIn\<close> does before it awaits the provider.\<close>

definition signIn_call :: "auth_state \<Rightarrow> auth_state" where
  "signIn_call s = s\<lparr>isLoading := True\<rparr>"

text \<open>
  Lines 87 to 89: what \<^verbatim>\<open>signIn\<close> does when the provider's promise has settled, in
  the state of that moment. A rejection is not caught: it leaves the function at the
  \<^verbatim>\<open>await\<close> and is the function's own rejection (\<open>Inl\<close>).
\<close>

definition signIn_resume ::
  "auth_state \<Rightarrow> 'a signIn_result_scheme settled \<Rightarrow> auth_state \<times> (jsval + signIn_result)" where
  "signIn_resume s r =
     (case r of
        Fulfilled resp \<Rightarrow> (s\<lparr>isLoading := False\<rparr>, Inr \<lparr>error = error resp\<rparr>)
      | Rejected x \<Rightarrow> (s, Inl x))"

text \<open>Line 93: what \<^verbatim>\<open>signOut\<close> does before it awaits the provider.\<close>

definition signOut_call :: "auth_state \<Rightarrow> auth_state" where
  "signOut_call s = s\<lparr>isLoading := True\<rparr>"

text \<open>
  Lines 94 to 97: what \<^verbatim>\<open>signOut\<close> does when the provider's promise has settled.
  The response is not looked at.
\<close>

definition signOut_resume :: "auth_state \<Rightarrow> jsval settled \<Rightarrow> auth_state \<times> (jsval + unit)" where
  "signOut_resume s r =
     (case r of
        Fulfilled resp \<Rightarrow> (s\<lparr>user := None, supabaseUser := None, isLoading := False\<rparr>, Inr ())
      | Rejected x \<Rightarrow> (s, Inl x))"

section \<open>The component as a state machine\<close>

text \<open>
  Everything that changes the cells: the startup fetch resolving, a change event, and
  the two halves of each delegate action. Other callbacks may run between the two halves
  of an action, since the action is suspended at its \<^verbatim>\<open>await\<close>.
\<close>

datatype auth_event =
    GetCurrentUserResolved "supabase_user option"
  | AuthStateChange string "session option"
  | SignInCalled string string
  | SignInSettled "signIn_result settled"
  | SignOutCalled
  | SignOutSettled "jsval settled"

fun step :: "auth_state \<Rightarrow> auth_event \<Rightarrow> auth_state" where
  "step s (GetCurrentUserResolved r) = getCurrentUser_then s r"
| "step s (AuthStateChange event sess) = onAuthStateChange_cb s event sess"
| "step s (SignInCalled e p) = signIn_call s"
| "step s (SignInSettled r) = fst (signIn_resume s r)"
| "step s SignOutCalled = signOut_call s"
| "step s (SignOutSettled r) = fst (signOut_resume s r)"

fun run :: "auth_state \<Rightarrow> auth_event list \<Rightarrow> auth_state" where
  "run s [] = s"
| "run s (e # es) = run (step s e) es"

text \<open>
  What is seen of a whole call of \<^verbatim>\<open>signIn\<close>: the state in which the provider is
  called (after line 86), the state when the call has settled, and how it settled:
  \<open>Inr\<close> the returned object, \<open>Inl\<close> the value it threw.
\<close>

record signIn_run =
  at_call :: auth_state
  at_return :: auth_state
  outcome :: "jsval + signIn_result"

text \<open>
  A whole call of \<^verbatim>\<open>signIn\<close> (lines 85 to 90): \<^verbatim>\<open>isLoading\<close> is set, the provider
  \<open>auth_signIn\<close> is called with the two arguments, the events \<open>pending\<close> are handled
  while the call is suspended at its \<^verbatim>\<open>await\<close>, and the call resumes with the
  provider's outcome.
\<close>

definition signIn ::
  "(string \<Rightarrow> string \<Rightarrow> 'a signIn_result_scheme settled) \<Rightarrow> auth_event list \<Rightarrow>
   auth_state \<Rightarrow> string \<Rightarrow> string \<Rightarrow> signIn_run" where
  "signIn auth_signIn pending s email_arg password_arg =
     (let s1 = signIn_call s;
          r = auth_signIn email_arg password_arg;
          res = signIn_resume (run s1 pending) r
      in \<lparr>at_call = s1, at_return = fst res, outcome = snd res\<rparr>)"

text \<open>A whole call of \<^verbatim>\<open>signOut\<close>, in the same way.\<close>

definition signOut ::
  "jsval settled \<Rightarrow> auth_event list \<Rightarrow> auth_state \<Rightarrow> auth_state \<times> (jsval + unit)" where
  "signOut auth_signOut pending s =
     signOut_resume (run (signOut_call s) pending) auth_signOut"

text \<open>The events that are a session check, and those that start a delegate action.\<close>

fun is_session_check :: "auth_event \<Rightarrow> bool" where
  "is_session_check (GetCurrentUserResolved _) = True"
| "is_session_check (AuthStateChange _ _) = True"
| "is_session_check _ = False"

fun is_action_call :: "auth_event \<Rightarrow> bool" where
  "is_action_call (SignInCalled _ _) = True"
| "is_action_call SignOutCalled = True"
| "is_action_call _ = False"

fun is_action :: "auth_event \<Rightarrow> bool" where
  "is_action (GetCurrentUserResolved _) = False"
| "is_action (AuthStateChange _ _) = False"
| "is_action _ = True"

definition no_session_check :: "auth_event list \<Rightarrow> bool" where
  "no_session_check tr = list_all (\<lambda>e. \<not> is_session_check e) tr"

definition no_action :: "auth_event list \<Rightarrow> bool" where
  "no_action tr = list_all (\<lambda>e. \<not> is_action e) tr"

text \<open>The invariant behind the placeholder password: a stored application user has none.\<close>

definition password_empty :: "auth_state \<Rightarrow> bool" where
  "password_empty s = (case auth_state.user s of None \<Rightarrow> True | Some a \<Rightarrow> password a = [])"

section \<open>Facts about the helpers\<close>

lemma split_char_not_Nil: "split_char c s \<noteq> []"
  by (induction s) (auto split: list.splits)

lemma hd_split_char: "hd (split_char c s) = takeWhile (\<lambda>x. x \<noteq> c) s"
proof (induction s)
  case Nil
  show ?case by simp
next
  case (Cons x xs)
  show ?case
  proof (cases "x = c")
    case True
    then show ?thesis by simp
  next
    case False
    with Cons split_char_not_Nil [of c xs] show ?thesis
      by (cases "split_char c xs") auto
  qed
qed

lemma js_index_split_char_0:
  "js_index (split_char c s) 0 = JStr (takeWhile (\<lambda>x. x \<noteq> c) s)"
  using split_char_not_Nil [of c s] hd_split_char [of c s]
  by (cases "split_char c s") (auto simp: js_index_def)

lemma fullName_fallback:
  "js_or (js_or JUndefined (email_local_part u)) (JStr []) =
     JStr (case supabase_user.email u of
             None \<Rightarrow> []
           | Some e \<Rightarrow> takeWhile (\<lambda>c. c \<noteq> CHR ''@'') e)"
  by (simp add: js_or_def email_local_part_def js_index_split_char_0 split: option.splits)

lemma metadata_get_lacking:
  "user_metadata u = None \<or> (\<exists>m. user_metadata u = Some m \<and> m k = None)
   \<Longrightarrow> metadata_get u k = JUndefined"
  by (auto simp: metadata_get_def)

lemma metadata_get_Admin:
  "(metadata_get u ''role'' = JStr ''Admin'') =
   (\<exists>m. user_metadata u = Some m \<and> m ''role'' = Some (JStr ''Admin''))"
  by (auto simp: metadata_get_def split: option.splits)

text \<open>The two handlers build the application user by the same rules.\<close>

lemma startup_appUser_eq_change_appUser: "startup_appUser u = change_appUser u"
  by (simp add: startup_appUser_def change_appUser_def)

section \<open>The mapping from provider user to application user\<close>

text \<open>
  Claim C3. In both handlers the mapped role is Admin exactly when the metadata is
  there and its \<^verbatim>\<open>role\<close> entry is the string "Admin"; in every other case, a missing
  entry or missing metadata included, the mapped role is Member.
\<close>

theorem role_Admin_iff_metadata_role_Admin:
  "(role (startup_appUser u) = Admin) =
     (\<exists>m. user_metadata u = Some m \<and> m ''role'' = Some (JStr ''Admin''))
   \<and> (role (startup_appUser u) = Member) =
     (\<not> (\<exists>m. user_metadata u = Some m \<and> m ''role'' = Some (JStr ''Admin'')))
   \<and> (role (change_appUser u) = Admin) =
     (\<exists>m. user_metadata u = Some m \<and> m ''role'' = Some (JStr ''Admin''))
   \<and> (role (change_appUser u) = Member) =
     (\<not> (\<exists>m. user_metadata u = Some m \<and> m ''role'' = Some (JStr ''Admin'')))"
  by (simp add: startup_appUser_def change_appUser_def metadata_get_Admin [symmetric])

text \<open>
  Claim C4. When the metadata has no \<^verbatim>\<open>full_name\<close> entry (or there is no metadata),
  the mapped display name is the part of the provider's email before the first "@": the
  whole email when it has no "@", and the empty string when the provider gives no email.
\<close>

theorem fullName_is_email_local_part:
  assumes "user_metadata u = None \<or> (\<exists>m. user_metadata u = Some m \<and> m ''full_name'' = None)"
  shows "fullName (startup_appUser u) =
           JStr (case supabase_user.email u of
                   None \<Rightarrow> []
                 | Some e \<Rightarrow> takeWhile (\<lambda>c. c \<noteq> CHR ''@'') e)
         \<and> fullName (change_appUser u) =
           JStr (case supabase_user.email u of
                   None \<Rightarrow> []
                 | Some e \<Rightarrow> takeWhile (\<lambda>c. c \<noteq> CHR ''@'') e)"
proof -
  from assms have "metadata_get u ''full_name'' = JUndefined"
    by (rule metadata_get_lacking)
  then show ?thesis
    by (simp add: startup_appUser_def change_appUser_def fullName_fallback)
qed

theorem fullName_is_email_local_part_witness:
  "fullName (startup_appUser
       \<lparr>supabase_user.id' = ''u7'', supabase_user.email = Some ''jo.doe@corp.example'',
        user_metadata = Some [''role'' \<mapsto> JStr ''Admin'']\<rparr>) = JStr ''jo.doe''
   \<and> fullName (change_appUser
       \<lparr>supabase_user.id' = ''u7'', supabase_user.email = Some ''jo.doe@corp.example'',
        user_metadata = Some [''role'' \<mapsto> JStr ''Admin'']\<rparr>) = JStr ''jo.doe''"
  using fullName_is_email_local_part
    [of "\<lparr>supabase_user.id' = ''u7'', supabase_user.email = Some ''jo.doe@corp.example'',
          user_metadata = Some [''role'' \<mapsto> JStr ''Admin'']\<rparr>"]
  by simp

text \<open>
  Claim C9. The session with id "u1", email "a@x.com" and empty metadata is mapped, by
  the startup handler and by the change listener alike, to the application user with id
  "u1", email "a@x.com", display name "a", empty company name, role Member and an empty
  permission list (and the empty password).
\<close>

theorem example_session_u1:
  "auth_state.user (getCurrentUser_then s
      (Some \<lparr>supabase_user.id' = ''u1'', supabase_user.email = Some ''a@x.com'',
             user_metadata = Some Map.empty\<rparr>)) =
     Some \<lparr>id' = ''u1'', email = ''a@x.com'', password = [], fullName = JStr ''a'',
           companyName = JStr [], role = Member, permissions = JArr []\<rparr>
   \<and> auth_state.user (onAuthStateChange_cb s ev
      (Some \<lparr>session.user =
               \<lparr>supabase_user.id' = ''u1'', supabase_user.email = Some ''a@x.com'',
                user_metadata = Some Map.empty\<rparr>\<rparr>)) =
     Some \<lparr>id' = ''u1'', email = ''a@x.com'', password = [], fullName = JStr ''a'',
           companyName = JStr [], role = Member, permissions = JArr []\<rparr>"
  by (simp add: getCurrentUser_then_def onAuthStateChange_cb_def startup_appUser_def
      change_appUser_def email_or_empty_def metadata_get_def email_local_part_def
      js_or_def js_index_def)

section \<open>Sign-in and sign-out\<close>

text \<open>
  Claim C5. Whatever the state before, whatever is handled while the call is suspended
  and whatever value the provider's sign-out resolves with, when \<^verbatim>\<open>signOut\<close> has
  completed the application user and the provider's user are absent and
  \<^verbatim>\<open>isLoading\<close> is false; \<^verbatim>\<open>isLoading\<close> was set before the provider was called.
\<close>

theorem signOut_clears_user_state:
  "auth_state.user (fst (signOut (Fulfilled resp) pending s)) = None
   \<and> supabaseUser (fst (signOut (Fulfilled resp) pending s)) = None
   \<and> isLoading (fst (signOut (Fulfilled resp) pending s)) = False
   \<and> isAuthenticated (fst (signOut (Fulfilled resp) pending s)) = False
   \<and> snd (signOut (Fulfilled resp) pending s) = Inr ()
   \<and> isLoading (signOut_call s) = True"
  by (simp add: signOut_def signOut_resume_def signOut_call_def isAuthenticated_def)

text \<open>
  Claim C6, as the code has it. \<^verbatim>\<open>signIn\<close> sets \<^verbatim>\<open>isLoading\<close> true, and
  nothing else, before it calls the provider, for every email, password and prior state.
  For every response the provider's promise resolves with, \<^verbatim>\<open>signIn\<close> returns (and
  does not throw) an object holding the provider's \<^verbatim>\<open>error\<close> value as it is, null
  on success included, and \<^verbatim>\<open>isLoading\<close> is false when it has returned. When the
  provider's promise rejects, nothing is caught: \<^verbatim>\<open>signIn\<close> rejects with the same
  value and writes no state after the call.
\<close>

theorem signIn_returns_provider_error:
  "at_call (signIn auth_signIn pending s email_arg password_arg) = s\<lparr>isLoading := True\<rparr>
   \<and> isLoading (at_call (signIn auth_signIn pending s email_arg password_arg)) = True
   \<and> (\<forall>resp. auth_signIn email_arg password_arg = Fulfilled resp \<longrightarrow>
         outcome (signIn auth_signIn pending s email_arg password_arg) =
           Inr \<lparr>error = error resp\<rparr>
         \<and> isLoading (at_return (signIn auth_signIn pending s email_arg password_arg)) = False
         \<and> at_return (signIn auth_signIn pending s email_arg password_arg) =
           (run (s\<lparr>isLoading := True\<rparr>) pending)\<lparr>isLoading := False\<rparr>)
   \<and> (\<forall>x. auth_signIn email_arg password_arg = Rejected x \<longrightarrow>
         outcome (signIn auth_signIn pending s email_arg password_arg) = Inl x
         \<and> at_return (signIn auth_signIn pending s email_arg password_arg) =
           run (s\<lparr>isLoading := True\<rparr>) pending)"
  by (simp add: signIn_def signIn_resume_def signIn_call_def Let_def)

theorem signIn_returns_provider_error_witness:
  "outcome (signIn
       (\<lambda>e p. if p = ''hunter2'' then Fulfilled \<lparr>error = JNull\<rparr>
               else Fulfilled \<lparr>error = JStr ''Invalid login credentials''\<rparr>)
       [] (run initial_state [GetCurrentUserResolved None]) ''a@x.com'' ''wrong'') =
     Inr \<lparr>error = JStr ''Invalid login credentials''\<rparr>
   \<and> isLoading (run initial_state [GetCurrentUserResolved None]) = False
   \<and> isLoading (at_call (signIn
       (\<lambda>e p. if p = ''hunter2'' then Fulfilled \<lparr>error = JNull\<rparr>
               else Fulfilled \<lparr>error = JStr ''Invalid login credentials''\<rparr>)
       [] (run initial_state [GetCurrentUserResolved None]) ''a@x.com'' ''wrong'')) = True
   \<and> isLoading (at_return (signIn
       (\<lambda>e p. if p = ''hunter2'' then Fulfilled \<lparr>error = JNull\<rparr>
               else Fulfilled \<lparr>error = JStr ''Invalid login credentials''\<rparr>)
       [] (run initial_state [GetCurrentUserResolved None]) ''a@x.com'' ''wrong'')) = False
   \<and> outcome (signIn
       (\<lambda>e p. if p = ''hunter2'' then Fulfilled \<lparr>error = JNull\<rparr>
               else Fulfilled \<lparr>error = JStr ''Invalid login credentials''\<rparr>)
       [AuthStateChange ''SIGNED_IN''
          (Some \<lparr>session.user = \<lparr>supabase_user.id' = ''u1'',
             supabase_user.email = Some ''a@x.com'', user_metadata = Some Map.empty\<rparr>\<rparr>)]
       (run initial_state [GetCurrentUserResolved None]) ''a@x.com'' ''hunter2'') =
     Inr \<lparr>error = JNull\<rparr>
   \<and> isLoading (at_return (signIn
       (\<lambda>e p. if p = ''hunter2'' then Fulfilled \<lparr>error = JNull\<rparr>
               else Fulfilled \<lparr>error = JStr ''Invalid login credentials''\<rparr>)
       [AuthStateChange ''SIGNED_IN''
          (Some \<lparr>session.user = \<lparr>supabase_user.id' = ''u1'',
             supabase_user.email = Some ''a@x.com'', user_metadata = Some Map.empty\<rparr>\<rparr>)]
       (run initial_state [GetCurrentUserResolved None]) ''a@x.com'' ''hunter2'')) = False
   \<and> outcome (signIn
       (\<lambda>e p. (Rejected (JStr ''Failed to fetch'') :: signIn_result settled))
       [] (run initial_state [GetCurrentUserResolved None]) ''a@x.com'' ''hunter2'') =
     Inl (JStr ''Failed to fetch'')"
proof -
  let ?auth = "\<lambda>e p. if p = ''hunter2'' then Fulfilled \<lparr>error = JNull\<rparr>
                      else Fulfilled \<lparr>error = JStr ''Invalid login credentials''\<rparr>"
  let ?down = "\<lambda>e p. (Rejected (JStr ''Failed to fetch'') :: signIn_result settled)"
  let ?s = "run initial_state [GetCurrentUserResolved None]"
  let ?ev = "[AuthStateChange ''SIGNED_IN''
          (Some \<lparr>session.user = \<lparr>supabase_user.id' = ''u1'',
             supabase_user.email = Some ''a@x.com'', user_metadata = Some Map.empty\<rparr>\<rparr>)]"
  have wrong: "?auth ''a@x.com'' ''wrong'' = Fulfilled \<lparr>error = JStr ''Invalid login credentials''\<rparr>"
    by simp
  have right: "?auth ''a@x.com'' ''hunter2'' = Fulfilled \<lparr>error = JNull\<rparr>"
    by simp
  have down: "?down ''a@x.com'' ''hunter2'' = Rejected (JStr ''Failed to fetch'')"
    by simp
  have prior: "isLoading ?s = False"
    by (simp add: getCurrentUser_then_def)
  note A = signIn_returns_provider_error [of ?auth "[]" ?s "''a@x.com''" "''wrong''"]
  note B = signIn_returns_provider_error [of ?auth ?ev ?s "''a@x.com''" "''hunter2''"]
  note C = signIn_returns_provider_error [of ?down "[]" ?s "''a@x.com''" "''hunter2''"]
  from A wrong have a: "outcome (signIn ?auth [] ?s ''a@x.com'' ''wrong'') =
      Inr \<lparr>error = JStr ''Invalid login credentials''\<rparr>
    \<and> isLoading (at_call (signIn ?auth [] ?s ''a@x.com'' ''wrong'')) = True
    \<and> isLoading (at_return (signIn ?auth [] ?s ''a@x.com'' ''wrong'')) = False"
    by (metis signIn_result.select_convs(1))
  from B right have b: "outcome (signIn ?auth ?ev ?s ''a@x.com'' ''hunter2'') = Inr \<lparr>error = JNull\<rparr>
    \<and> isLoading (at_return (signIn ?auth ?ev ?s ''a@x.com'' ''hunter2'')) = False"
    by (metis signIn_result.select_convs(1))
  from C down have c: "outcome (signIn ?down [] ?s ''a@x.com'' ''hunter2'') =
      Inl (JStr ''Failed to fetch'')"
    by blast
  from a b c prior show ?thesis by blast
qed

text \<open>
  Claim C6, as stated, fails: \<^verbatim>\<open>signIn\<close> has no \<^verbatim>\<open>try\<close>, so when the
  provider's promise rejects (here after the startup fetch has ended the loading phase)
  the call throws the provider's value to its caller and never reaches line 88:
  \<^verbatim>\<open>isLoading\<close> is still true afterwards.
\<close>

theorem signIn_throws_when_provider_rejects:
  "outcome (signIn
       (\<lambda>e p. (Rejected (JStr ''Failed to fetch'') :: signIn_result settled))
       [] (run initial_state [GetCurrentUserResolved None]) ''a@x.com'' ''hunter2'') =
     Inl (JStr ''Failed to fetch'')
   \<and> isLoading (run initial_state [GetCurrentUserResolved None]) = False
   \<and> isLoading (at_return (signIn
       (\<lambda>e p. (Rejected (JStr ''Failed to fetch'') :: signIn_result settled))
       [] (run initial_state [GetCurrentUserResolved None]) ''a@x.com'' ''hunter2'')) = True"
  by (simp add: signIn_def signIn_resume_def signIn_call_def getCurrentUser_then_def Let_def)

text \<open>
  No event reads \<^verbatim>\<open>isLoading\<close> to decide what it stores as users: two states that
  agree on both users still do after the same events.
\<close>

lemma step_users_independent_of_isLoading:
  assumes "auth_state.user s1 = auth_state.user s2" and "supabaseUser s1 = supabaseUser s2"
  shows "auth_state.user (step s1 e) = auth_state.user (step s2 e)
         \<and> supabaseUser (step s1 e) = supabaseUser (step s2 e)"
  using assms
  by (cases e)
     (simp_all add: getCurrentUser_then_def onAuthStateChange_cb_def Let_def
        signIn_call_def signOut_call_def signIn_resume_def signOut_resume_def
        split: option.splits settled.splits)

lemma run_users_independent_of_isLoading:
  assumes "auth_state.user s1 = auth_state.user s2" and "supabaseUser s1 = supabaseUser s2"
  shows "auth_state.user (run s1 tr) = auth_state.user (run s2 tr)
         \<and> supabaseUser (run s1 tr) = supabaseUser (run s2 tr)"
  using assms
proof (induction tr arbitrary: s1 s2)
  case Nil
  then show ?case by simp
next
  case (Cons e es)
  from step_users_independent_of_isLoading [OF Cons.prems, of e]
  have "auth_state.user (step s1 e) = auth_state.user (step s2 e)"
    and "supabaseUser (step s1 e) = supabaseUser (step s2 e)"
    by simp_all
  then show ?case
    using Cons.IH [of "step s1 e" "step s2 e"] by simp
qed

lemma signIn_users:
  "auth_state.user (at_return (signIn auth_signIn pending s email_arg password_arg)) =
     auth_state.user (run s pending)
   \<and> supabaseUser (at_return (signIn auth_signIn pending s email_arg password_arg)) =
     supabaseUser (run s pending)"
proof -
  have "auth_state.user (signIn_call s) = auth_state.user s"
    and "supabaseUser (signIn_call s) = supabaseUser s"
    by (simp_all add: signIn_call_def)
  from run_users_independent_of_isLoading [OF this, of pending]
  show ?thesis
    by (simp add: signIn_def signIn_resume_def Let_def split: settled.splits)
qed

text \<open>
  Claim C10. \<^verbatim>\<open>signIn\<close> itself never writes the application user or the provider's
  user: neither half of the call changes them, whatever the provider's outcome, so they
  are the prior ones in the state in which the provider is called; a call
  during which no other callback runs returns a state that differs from the prior state
  in \<^verbatim>\<open>isLoading\<close> at most; and when other callbacks do run while the call is
  suspended, the two users afterwards are those that these callbacks alone produce.
\<close>

theorem signIn_leaves_users_unchanged:
  "auth_state.user (signIn_call s) = auth_state.user s
   \<and> supabaseUser (signIn_call s) = supabaseUser s
   \<and> auth_state.user (at_call (signIn auth_signIn pending s email_arg password_arg)) =
       auth_state.user s
   \<and> supabaseUser (at_call (signIn auth_signIn pending s email_arg password_arg)) =
       supabaseUser s
   \<and> auth_state.user (fst (signIn_resume s' r)) = auth_state.user s'
   \<and> supabaseUser (fst (signIn_resume s' r)) = supabaseUser s'
   \<and> (at_return (signIn auth_signIn [] s email_arg password_arg))\<lparr>isLoading := isLoading s\<rparr> = s
   \<and> auth_state.user (at_return (signIn auth_signIn pending s email_arg password_arg)) =
       auth_state.user (run s pending)
   \<and> supabaseUser (at_return (signIn auth_signIn pending s email_arg password_arg)) =
       supabaseUser (run s pending)"
proof -
  have "(at_return (signIn auth_signIn [] s email_arg password_arg))\<lparr>isLoading := isLoading s\<rparr> = s"
    by (simp add: signIn_def signIn_resume_def signIn_call_def Let_def split: settled.splits)
  moreover have "auth_state.user (at_call (signIn auth_signIn pending s email_arg password_arg)) =
      auth_state.user s
      \<and> supabaseUser (at_call (signIn auth_signIn pending s email_arg password_arg)) =
      supabaseUser s"
    by (simp add: signIn_def signIn_call_def Let_def)
  moreover have "auth_state.user (fst (signIn_resume s' r)) = auth_state.user s'
      \<and> supabaseUser (fst (signIn_resume s' r)) = supabaseUser s'"
    by (simp add: signIn_resume_def split: settled.splits)
  ultimately show ?thesis
    using signIn_users [of auth_signIn pending s email_arg password_arg]
    by (simp add: signIn_call_def)
qed

section \<open>The password placeholder\<close>

lemma password_empty_step: "password_empty s \<Longrightarrow> password_empty (step s e)"
  by (cases e)
     (simp_all add: password_empty_def getCurrentUser_then_def onAuthStateChange_cb_def Let_def
        startup_appUser_def change_appUser_def signIn_call_def signOut_call_def
        signIn_resume_def signOut_resume_def split: option.splits settled.splits)

lemma password_empty_run: "password_empty s \<Longrightarrow> password_empty (run s tr)"
  by (induction tr arbitrary: s) (simp_all add: password_empty_step)

text \<open>
  Claim C8. Both handlers map every provider user to an application user whose password
  is the empty string, and in every state reached from the initial one, by any events in
  any order, a stored application user has the empty password.
\<close>

theorem password_always_empty:
  "password (startup_appUser u) = []
   \<and> password (change_appUser u) = []
   \<and> (\<forall>tr a. auth_state.user (run initial_state tr) = Some a \<longrightarrow> password a = [])"
proof -
  have "password_empty initial_state"
    by (simp add: password_empty_def initial_state_def)
  then have inv: "password_empty (run initial_state tr)" for tr
    by (rule password_empty_run)
  have "password a = []" if "auth_state.user (run initial_state tr) = Some a" for tr a
    using inv [of tr] that by (simp add: password_empty_def)
  then have "\<forall>tr a. auth_state.user (run initial_state tr) = Some a \<longrightarrow> password a = []"
    by blast
  then show ?thesis
    by (simp add: startup_appUser_def change_appUser_def)
qed

theorem password_always_empty_witness:
  "password (startup_appUser \<lparr>supabase_user.id' = ''u1'', supabase_user.email = Some ''a@x.com'',
        user_metadata = Some [''password'' \<mapsto> JStr ''secret'']\<rparr>) = []
   \<and> auth_state.user (run initial_state
        [AuthStateChange ''SIGNED_IN''
           (Some \<lparr>session.user = \<lparr>supabase_user.id' = ''u1'', supabase_user.email = Some ''a@x.com'',
              user_metadata = Some [''password'' \<mapsto> JStr ''secret'']\<rparr>\<rparr>)]) \<noteq> None
   \<and> password (the (auth_state.user (run initial_state
        [AuthStateChange ''SIGNED_IN''
           (Some \<lparr>session.user = \<lparr>supabase_user.id' = ''u1'', supabase_user.email = Some ''a@x.com'',
              user_metadata = Some [''password'' \<mapsto> JStr ''secret'']\<rparr>\<rparr>)]))) = []"
proof -
  let ?u = "\<lparr>supabase_user.id' = ''u1'', supabase_user.email = Some ''a@x.com'',
        user_metadata = Some [''password'' \<mapsto> JStr ''secret'']\<rparr>"
  let ?tr = "[AuthStateChange ''SIGNED_IN'' (Some \<lparr>session.user = ?u\<rparr>)]"
  note P = password_always_empty [of ?u]
  have r: "auth_state.user (run initial_state ?tr) = Some (change_appUser ?u)"
    by (simp add: onAuthStateChange_cb_def)
  from P r have "password (change_appUser ?u) = []" by blast
  with P r show ?thesis by simp
qed

section \<open>The loading flag\<close>

lemma session_check_not_loading: "is_session_check e \<Longrightarrow> \<not> isLoading (step s e)"
  by (cases e)
     (simp_all add: getCurrentUser_then_def onAuthStateChange_cb_def Let_def split: option.splits)

lemma action_call_loading: "is_action_call e \<Longrightarrow> isLoading (step s e)"
  by (cases e) (simp_all add: signIn_call_def signOut_call_def)

lemma not_loading_preserved:
  "\<not> isLoading s \<Longrightarrow> \<not> is_action_call e \<Longrightarrow> \<not> isLoading (step s e)"
  by (cases e)
     (simp_all add: getCurrentUser_then_def onAuthStateChange_cb_def Let_def
        signIn_resume_def signOut_resume_def split: option.splits settled.splits)

lemma run_checks_loading:
  "no_action tr \<Longrightarrow> isLoading (run s tr) = (isLoading s \<and> no_session_check tr)"
proof (induction tr arbitrary: s)
  case Nil
  show ?case by (simp add: no_session_check_def)
next
  case (Cons e es)
  from Cons.prems have e: "is_session_check e" and es: "no_action es"
    by (cases e; simp add: no_action_def)+
  from e have "\<not> isLoading (step s e)" by (rule session_check_not_loading)
  with Cons.IH [OF es, of "step s e"] e show ?case
    by (simp add: no_session_check_def)
qed

text \<open>
  Claim C7, as the code has it. \<^verbatim>\<open>isLoading\<close> is true in the initial state. As
  long as neither \<^verbatim>\<open>signIn\<close> nor \<^verbatim>\<open>signOut\<close> has been called, it is false
  exactly when the startup fetch or a change event has resolved. Every session check
  sets it false. Once false it stays false under every event that is not a call of
  \<^verbatim>\<open>signIn\<close> or \<^verbatim>\<open>signOut\<close>; such a call sets it true, and the call's
  completion sets it false again, also when no session check has resolved yet.
\<close>

theorem isLoading_lifecycle:
  "isLoading initial_state
   \<and> (\<forall>tr. no_action tr \<longrightarrow> isLoading (run initial_state tr) = no_session_check tr)
   \<and> (\<forall>s e. is_session_check e \<longrightarrow> \<not> isLoading (step s e))
   \<and> (\<forall>s e. \<not> isLoading s \<and> \<not> is_action_call e \<longrightarrow> \<not> isLoading (step s e))
   \<and> (\<forall>s e. is_action_call e \<longrightarrow> isLoading (step s e))
   \<and> (\<forall>s resp. \<not> isLoading (step s (SignInSettled (Fulfilled resp))))
   \<and> (\<forall>s resp. \<not> isLoading (step s (SignOutSettled (Fulfilled resp))))"
proof -
  have "isLoading initial_state" by (simp add: initial_state_def)
  moreover from this have "\<forall>tr. no_action tr \<longrightarrow> isLoading (run initial_state tr) = no_session_check tr"
    by (simp add: run_checks_loading)
  moreover have "\<forall>s e. is_session_check e \<longrightarrow> \<not> isLoading (step s e)"
    by (simp add: session_check_not_loading)
  moreover have "\<forall>s e. \<not> isLoading s \<and> \<not> is_action_call e \<longrightarrow> \<not> isLoading (step s e)"
    by (simp add: not_loading_preserved)
  moreover have "\<forall>s e. is_action_call e \<longrightarrow> isLoading (step s e)"
    by (simp add: action_call_loading)
  moreover have "\<forall>s resp. \<not> isLoading (step s (SignInSettled (Fulfilled resp)))"
    by (simp add: signIn_resume_def)
  moreover have "\<forall>s resp. \<not> isLoading (step s (SignOutSettled (Fulfilled resp)))"
    by (simp add: signOut_resume_def)
  ultimately show ?thesis by blast
qed

theorem isLoading_lifecycle_witness:
  "isLoading initial_state
   \<and> no_action [GetCurrentUserResolved None]
   \<and> \<not> no_session_check [GetCurrentUserResolved None]
   \<and> \<not> isLoading (run initial_state [GetCurrentUserResolved None])
   \<and> is_session_check (AuthStateChange ''SIGNED_OUT'' None)
   \<and> \<not> isLoading (step initial_state (AuthStateChange ''SIGNED_OUT'' None))
   \<and> \<not> is_action_call (SignInSettled (Rejected JNull))
   \<and> \<not> isLoading (step (step initial_state (AuthStateChange ''SIGNED_OUT'' None))
          (SignInSettled (Rejected JNull)))
   \<and> is_action_call SignOutCalled
   \<and> isLoading (step (step initial_state (AuthStateChange ''SIGNED_OUT'' None)) SignOutCalled)"
proof -
  note L = isLoading_lifecycle
  from L have a: "isLoading initial_state" by blast
  have na: "no_action [GetCurrentUserResolved None]"
    by (simp add: no_action_def)
  have nc: "\<not> no_session_check [GetCurrentUserResolved None]"
    by (simp add: no_session_check_def)
  from L na nc have b: "\<not> isLoading (run initial_state [GetCurrentUserResolved None])"
    by blast
  have sc: "is_session_check (AuthStateChange ''SIGNED_OUT'' None)" by simp
  from L sc have c: "\<not> isLoading (step initial_state (AuthStateChange ''SIGNED_OUT'' None))"
    by blast
  have ns: "\<not> is_action_call (SignInSettled (Rejected JNull))" by simp
  from L c ns have d: "\<not> isLoading (step (step initial_state (AuthStateChange ''SIGNED_OUT'' None))
          (SignInSettled (Rejected JNull)))"
    by blast
  have ac: "is_action_call SignOutCalled" by simp
  from L ac have e: "isLoading (step (step initial_state (AuthStateChange ''SIGNED_OUT'' None)) SignOutCalled)"
    by blast
  from a na nc b sc c ns d ac e show ?thesis by blast
qed

text \<open>
  Claim C7, as stated, fails: \<^verbatim>\<open>isLoading\<close> can become false before the startup
  fetch or any change event has resolved. A \<^verbatim>\<open>signIn\<close> that is called right after
  mount and answered with an error sets it false at line 88, and the trace holds no
  session check.
\<close>

theorem isLoading_false_before_first_session_check:
  "no_session_check
     [SignInCalled ''a@x.com'' ''wrong'',
      SignInSettled (Fulfilled \<lparr>error = JStr ''Invalid login credentials''\<rparr>)]
   \<and> \<not> isLoading (run initial_state
     [SignInCalled ''a@x.com'' ''wrong'',
      SignInSettled (Fulfilled \<lparr>error = JStr ''Invalid login credentials''\<rparr>)])"
  by (simp add: no_session_check_def initial_state_def signIn_call_def signIn_resume_def)

section \<open>The startup handler against the change listener\<close>

text \<open>
  The two handlers agree whenever the provider reports a user, and also when it reports
  none and no application user is stored. They differ in the remaining case: without a
  session the listener clears the application user (line 76), the startup callback
  leaves it as it was (the \<^verbatim>\<open>if\<close> at line 45 has no else branch) although it sets
  the provider's user to null (line 44).
\<close>

lemma handlers_agree_with_user:
  "getCurrentUser_then s (Some u) = onAuthStateChange_cb s ev (Some \<lparr>session.user = u\<rparr>)"
  by (simp add: getCurrentUser_then_def onAuthStateChange_cb_def startup_appUser_def
      change_appUser_def)

lemma handlers_agree_when_signed_out:
  "auth_state.user s = None \<Longrightarrow> getCurrentUser_then s None = onAuthStateChange_cb s ev None"
  by (simp add: getCurrentUser_then_def onAuthStateChange_cb_def)

lemma change_without_session_clears:
  "auth_state.user (onAuthStateChange_cb s ev None) = None
   \<and> supabaseUser (onAuthStateChange_cb s ev None) = None
   \<and> \<not> isAuthenticated (onAuthStateChange_cb s ev None)"
  by (simp add: onAuthStateChange_cb_def isAuthenticated_def)

lemma startup_without_session_keeps_user:
  "auth_state.user (getCurrentUser_then s None) = auth_state.user s
   \<and> supabaseUser (getCurrentUser_then s None) = None"
  by (simp add: getCurrentUser_then_def)

text \<open>
  Claim C1, evaluated where it fails. The prior state is the one the listener leaves
  when it has fired with a session before the startup fetch resolves. On the report
  "no session" the startup callback keeps the application user and
  \<^verbatim>\<open>isAuthenticated\<close> stays true, while the change listener clears the user.
\<close>

theorem startup_and_change_differ_without_session:
  "auth_state.user (getCurrentUser_then
       (onAuthStateChange_cb initial_state ''INITIAL_SESSION''
          (Some \<lparr>session.user = \<lparr>supabase_user.id' = ''u1'',
             supabase_user.email = Some ''a@x.com'', user_metadata = Some Map.empty\<rparr>\<rparr>))
       None) =
     Some \<lparr>id' = ''u1'', email = ''a@x.com'', password = [], fullName = JStr ''a'',
           companyName = JStr [], role = Member, permissions = JArr []\<rparr>
   \<and> auth_state.user (onAuthStateChange_cb
       (onAuthStateChange_cb initial_state ''INITIAL_SESSION''
          (Some \<lparr>session.user = \<lparr>supabase_user.id' = ''u1'',
             supabase_user.email = Some ''a@x.com'', user_metadata = Some Map.empty\<rparr>\<rparr>))
       ''SIGNED_OUT'' None) = None
   \<and> isAuthenticated (getCurrentUser_then
       (onAuthStateChange_cb initial_state ''INITIAL_SESSION''
          (Some \<lparr>session.user = \<lparr>supabase_user.id' = ''u1'',
             supabase_user.email = Some ''a@x.com'', user_metadata = Some Map.empty\<rparr>\<rparr>))
       None)
   \<and> \<not> isAuthenticated (onAuthStateChange_cb
       (onAuthStateChange_cb initial_state ''INITIAL_SESSION''
          (Some \<lparr>session.user = \<lparr>supabase_user.id' = ''u1'',
             supabase_user.email = Some ''a@x.com'', user_metadata = Some Map.empty\<rparr>\<rparr>))
       ''SIGNED_OUT'' None)"
  by (simp add: getCurrentUser_then_def onAuthStateChange_cb_def isAuthenticated_def
      change_appUser_def email_or_empty_def metadata_get_def email_local_part_def
      js_or_def js_index_def)

text \<open>
  Claim C2, evaluated where it fails. The listener fires with a session, then the
  startup fetch resolves without a user: afterwards the provider's user is absent, but
  the application user is still there and \<^verbatim>\<open>isAuthenticated\<close> is true.
\<close>

theorem startup_without_session_leaves_user:
  "auth_state.user (run initial_state
       [AuthStateChange ''INITIAL_SESSION''
          (Some \<lparr>session.user = \<lparr>supabase_user.id' = ''u1'',
             supabase_user.email = Some ''a@x.com'', user_metadata = Some Map.empty\<rparr>\<rparr>),
        GetCurrentUserResolved None]) =
     Some \<lparr>id' = ''u1'', email = ''a@x.com'', password = [], fullName = JStr ''a'',
           companyName = JStr [], role = Member, permissions = JArr []\<rparr>
   \<and> supabaseUser (run initial_state
       [AuthStateChange ''INITIAL_SESSION''
          (Some \<lparr>session.user = \<lparr>supabase_user.id' = ''u1'',
             supabase_user.email = Some ''a@x.com'', user_metadata = Some Map.empty\<rparr>\<rparr>),
        GetCurrentUserResolved None]) = None
   \<and> isAuthenticated (run initial_state
       [AuthStateChange ''INITIAL_SESSION''
          (Some \<lparr>session.user = \<lparr>supabase_user.id' = ''u1'',
             supabase_user.email = Some ''a@x.com'', user_metadata = Some Map.empty\<rparr>\<rparr>),
        GetCurrentUserResolved None])"
  by (simp add: getCurrentUser_then_def onAuthStateChange_cb_def isAuthenticated_def
      change_appUser_def email_or_empty_def metadata_get_def email_local_part_def
      js_or_def js_index_def)

end
